theory Spec2Isabelle
  imports Main
begin

section \<open>Go values used by variable.go\<close>

text \<open>
  A Go pointer \<open>*T\<close> that the code only tests against \<open>nil\<close> and reads is modelled by
  its pointee: \<open>None\<close> is \<open>nil\<close>. A Go slice \<open>[]T\<close> keeps the difference between
  the nil slice (\<open>None\<close>) and an allocated one, since \<open>List\<close> returns \<open>nil\<close> on its
  error paths and starts its accumulator as \<open>var vs []*Variable\<close>.
\<close>

type_synonym 'a ptr = "'a option"

type_synonym 'a slice = "'a list option"

definition len :: "'a slice \<Rightarrow> nat" where
  "len s = (case s of None \<Rightarrow> 0 | Some xs \<Rightarrow> length xs)"

definition elems :: "'a slice \<Rightarrow> 'a list" where
  "elems s = (case s of None \<Rightarrow> [] | Some xs \<Rightarrow> xs)"

text \<open>Go's builtin \<open>append(s, x)\<close>: appending to the nil slice allocates.\<close>

definition append_slice :: "'a slice \<Rightarrow> 'a \<Rightarrow> 'a slice" where
  "append_slice s x = (case s of None \<Rightarrow> Some [x] | Some xs \<Rightarrow> Some (xs @ [x]))"

text \<open>A Go \<open>error\<close> value; \<open>nil\<close> is \<open>None :: error option\<close>.\<close>

datatype error = errors_New string

text \<open>A call either returns its results or panics (a failed type assertion).\<close>

datatype 'a outcome = Returned 'a | Panic

section \<open>Data model\<close>

type_synonym CategoryType = string

definition CategoryEnv :: CategoryType where
  "CategoryEnv = ''env''"

definition CategoryTerraform :: CategoryType where
  "CategoryTerraform = ''terraform''"

text \<open>The type \<open>Workspace\<close> is declared elsewhere in the package; it is the parameter \<open>'w\<close>.\<close>

record 'w Variable =
  ID :: string
  Key :: string
  Value :: string
  Category :: CategoryType
  HCL :: bool
  Sensitive :: bool
  Workspace :: "'w ptr"

text \<open>
  \<open>ListOptions\<close> is embedded in \<open>VariableListOptions\<close>; variable\_test.go sets its
  fields \<open>PageNumber\<close> and \<open>PageSize\<close>.
\<close>

record ListOptions =
  PageNumber :: int
  PageSize :: int

record VariableListOptions =
  ListOptions :: ListOptions
  Organization :: "string ptr"
  Workspace :: "string ptr"

record 'w VariableCreateOptions =
  ID :: string
  Key :: "string ptr"
  Value :: "string ptr"
  Category :: "CategoryType ptr"
  HCL :: "bool ptr"
  Sensitive :: "bool ptr"
  Workspace :: "'w ptr"

record VariableUpdateOptions =
  ID :: string
  Key :: "string ptr"
  Value :: "string ptr"
  Category :: "CategoryType ptr"
  HCL :: "bool ptr"
  Sensitive :: "bool ptr"

section \<open>Store, client and recorded calls\<close>

text \<open>
  The three operations that take an options struct take it by value and then pass
  \<open>&options\<close> on, so the parameter is a variable of its own whose address escapes. The
  store holds every such addressable struct; an address is an index into \<open>heap\<close>.
\<close>

datatype 'w cell =
  ListOptionsCell VariableListOptions
| CreateOptionsCell "'w VariableCreateOptions"
| UpdateOptionsCell VariableUpdateOptions

text \<open>
  The second argument of \<open>do\<close> is the value to decode into: \<open>[]*Variable{}\<close>,
  \<open>&Variable{}\<close> or \<open>nil\<close>.
\<close>

datatype model = SliceOfVariable | PtrToVariable | NilModel

text \<open>
  \<open>do\<close> returns an \<open>interface{}\<close>: nil, a \<open>*Variable\<close> (possibly a nil pointer of
  that type), a \<open>[]interface{}\<close>, or a value of any other dynamic type.
\<close>

datatype 'w iface =
  nil_iface
| ptr_Variable "'w Variable ptr"
| slice_iface "'w iface list"
| other_iface

datatype ('w, 'r) call =
  NewRequestCall string string "'w cell option"
| DoCall 'r model

text \<open>
  The methods \<open>newRequest\<close> and \<open>do\<close> of \<open>Client\<close> are defined elsewhere in the
  package. Their behaviour is a parameter: \<open>newRequest_fn\<close> maps method, path and the
  payload it reads through the pointer (\<open>None\<close> for a nil payload) to a request of type
  \<open>'r\<close> and an error; \<open>do_fn\<close> maps the request and the decoding target to a value
  and an error. Both results are Go pairs: nothing ties the value to the error. The
  receiver \<open>s\<close> and its \<open>client\<close> are taken to be non-nil, as \<open>testClient\<close> builds them.
\<close>

record ('w, 'r) Client =
  newRequest_fn :: "string \<Rightarrow> string \<Rightarrow> 'w cell option \<Rightarrow> 'r \<times> error option"
  do_fn :: "'r \<Rightarrow> model \<Rightarrow> 'w iface \<times> error option"

record ('w, 'r) Variables =
  client :: "('w, 'r) Client"

record ('w, 'r) machine =
  heap :: "'w cell list"
  calls :: "('w, 'r) call list"

definition alloc :: "'w cell \<Rightarrow> ('w, 'r) machine \<Rightarrow> nat \<times> ('w, 'r) machine" where
  "alloc c st = (length (heap st), st\<lparr>heap := heap st @ [c]\<rparr>)"

definition store :: "nat \<Rightarrow> 'w cell \<Rightarrow> ('w, 'r) machine \<Rightarrow> ('w, 'r) machine" where
  "store a c st = st\<lparr>heap := (heap st)[a := c]\<rparr>"

definition load :: "nat \<Rightarrow> ('w, 'r) machine \<Rightarrow> 'w cell option" where
  "load a st = (if a < length (heap st) then Some (heap st ! a) else None)"

text \<open>
  \<open>s.client.newRequest(method, path, v)\<close> and \<open>s.client.do(req, model)\<close>: every
  invocation is appended to \<open>calls\<close> with the arguments it received. The payload
  pointer \<open>v\<close> is nil or the address of a cell the caller has just allocated.
\<close>

definition newRequest ::
  "('w, 'r) Client \<Rightarrow> string \<Rightarrow> string \<Rightarrow> nat ptr \<Rightarrow> ('w, 'r) machine
    \<Rightarrow> ('r \<times> error option) \<times> ('w, 'r) machine" where
  "newRequest c method path v st =
     (let payload = (case v of None \<Rightarrow> None | Some a \<Rightarrow> load a st)
      in (newRequest_fn c method path payload,
          st\<lparr>calls := calls st @ [NewRequestCall method path payload]\<rparr>))"

definition do ::
  "('w, 'r) Client \<Rightarrow> 'r \<Rightarrow> model \<Rightarrow> ('w, 'r) machine
    \<Rightarrow> ('w iface \<times> error option) \<times> ('w, 'r) machine" where
  "do c req m st = (do_fn c req m, st\<lparr>calls := calls st @ [DoCall req m]\<rparr>)"

section \<open>Validation\<close>

text \<open>
  Modelled from the spec: the helper \<open>validString\<close> is called by variable.go and defined
  elsewhere in the package. The spec describes it as the non-empty-string check: a field
  fails it when it is absent or empty.
\<close>

definition validString :: "string ptr \<Rightarrow> bool" where
  "validString v = (case v of None \<Rightarrow> False | Some s \<Rightarrow> s \<noteq> [])"

definition VariableListOptions_valid :: "VariableListOptions \<Rightarrow> error option" where
  "VariableListOptions_valid o' =
     (if \<not> validString (Organization o') then Some (errors_New ''Organization is required'')
      else if \<not> validString (VariableListOptions.Workspace o')
        then Some (errors_New ''Workspace is required'')
      else None)"

definition VariableCreateOptions_valid :: "'w VariableCreateOptions \<Rightarrow> error option" where
  "VariableCreateOptions_valid o' =
     (if \<not> validString (VariableCreateOptions.Key o') then Some (errors_New ''Key is required'')
      else if \<not> validString (VariableCreateOptions.Value o')
        then Some (errors_New ''Value is required'')
      else if VariableCreateOptions.Category o' = None
        then Some (errors_New ''Category is required'')
      else if VariableCreateOptions.Workspace o' = None
        then Some (errors_New ''Workspace is required'')
      else None)"

section \<open>The four operations\<close>

text \<open>The loop of \<open>List\<close>: \<open>vs = append(vs, v.(*Variable))\<close> for each \<open>v\<close> in order.\<close>

fun range_append ::
  "'w iface list \<Rightarrow> 'w Variable ptr slice \<Rightarrow> 'w Variable ptr slice outcome" where
  "range_append [] vs = Returned vs"
| "range_append (v # rest) vs =
     (case v of
        ptr_Variable p \<Rightarrow> range_append rest (append_slice vs p)
      | _ \<Rightarrow> Panic)"

definition List ::
  "('w, 'r) Variables \<Rightarrow> VariableListOptions \<Rightarrow> ('w, 'r) machine
    \<Rightarrow> ('w Variable ptr slice \<times> error option) outcome \<times> ('w, 'r) machine" where
  "List s options0 st0 =
     (case alloc (ListOptionsCell options0) st0 of (options, st1) \<Rightarrow>
      (case VariableListOptions_valid options0 of
         Some err \<Rightarrow> (Returned (None, Some err), st1)
       | None \<Rightarrow>
         (case newRequest (client s) ''GET'' ''vars'' (Some options) st1 of
            ((req, Some err), st2) \<Rightarrow> (Returned (None, Some err), st2)
          | ((req, None), st2) \<Rightarrow>
            (case do (client s) req SliceOfVariable st2 of
               ((result, Some err), st3) \<Rightarrow> (Returned (None, Some err), st3)
             | ((result, None), st3) \<Rightarrow>
               (case result of
                  slice_iface vals \<Rightarrow>
                    (case range_append vals None of
                       Returned vs \<Rightarrow> (Returned (vs, None), st3)
                     | Panic \<Rightarrow> (Panic, st3))
                | _ \<Rightarrow> (Panic, st3))))))"

definition Create ::
  "('w, 'r) Variables \<Rightarrow> 'w VariableCreateOptions \<Rightarrow> ('w, 'r) machine
    \<Rightarrow> ('w Variable ptr \<times> error option) outcome \<times> ('w, 'r) machine" where
  "Create s options0 st0 =
     (case alloc (CreateOptionsCell options0) st0 of (options, st1) \<Rightarrow>
      (case VariableCreateOptions_valid options0 of
         Some err \<Rightarrow> (Returned (None, Some err), st1)
       | None \<Rightarrow>
         (let st1' = store options
                       (CreateOptionsCell (options0\<lparr>VariableCreateOptions.ID := ''''\<rparr>)) st1
          in case newRequest (client s) ''POST'' ''vars'' (Some options) st1' of
            ((req, Some err), st2) \<Rightarrow> (Returned (None, Some err), st2)
          | ((req, None), st2) \<Rightarrow>
            (case do (client s) req PtrToVariable st2 of
               ((v, Some err), st3) \<Rightarrow> (Returned (None, Some err), st3)
             | ((v, None), st3) \<Rightarrow>
               (case v of
                  ptr_Variable p \<Rightarrow> (Returned (p, None), st3)
                | _ \<Rightarrow> (Panic, st3))))))"

text \<open>
  \<open>validStringID\<close> is defined elsewhere in the package, around a pattern that the spec
  only calls the server's identifier shape; \<open>Update\<close> and \<open>Delete\<close> take it as a
  parameter and call it on \<open>&variableID\<close>.
\<close>

definition Update ::
  "(string ptr \<Rightarrow> bool) \<Rightarrow> ('w, 'r) Variables \<Rightarrow> string \<Rightarrow> VariableUpdateOptions
    \<Rightarrow> ('w, 'r) machine
    \<Rightarrow> ('w Variable ptr \<times> error option) outcome \<times> ('w, 'r) machine" where
  "Update validStringID s variableID options0 st0 =
     (case alloc (UpdateOptionsCell options0) st0 of (options, st1) \<Rightarrow>
      if \<not> validStringID (Some variableID)
      then (Returned (None, Some (errors_New ''Invalid value for variable ID'')), st1)
      else
        (let st1' = store options (UpdateOptionsCell (options0\<lparr>ID := variableID\<rparr>)) st1
         in case newRequest (client s) ''PATCH'' (''vars/'' @ variableID) (Some options) st1' of
            ((req, Some err), st2) \<Rightarrow> (Returned (None, Some err), st2)
          | ((req, None), st2) \<Rightarrow>
            (case do (client s) req PtrToVariable st2 of
               ((v, Some err), st3) \<Rightarrow> (Returned (None, Some err), st3)
             | ((v, None), st3) \<Rightarrow>
               (case v of
                  ptr_Variable p \<Rightarrow> (Returned (p, None), st3)
                | _ \<Rightarrow> (Panic, st3)))))"

definition Delete ::
  "(string ptr \<Rightarrow> bool) \<Rightarrow> ('w, 'r) Variables \<Rightarrow> string \<Rightarrow> ('w, 'r) machine
    \<Rightarrow> error option outcome \<times> ('w, 'r) machine" where
  "Delete validStringID s variableID st0 =
     (if \<not> validStringID (Some variableID)
      then (Returned (Some (errors_New ''Invalid value for variable ID'')), st0)
      else
        (case newRequest (client s) ''DELETE'' (''vars/'' @ variableID) None st0 of
           ((req, Some err), st1) \<Rightarrow> (Returned (Some err), st1)
         | ((req, None), st1) \<Rightarrow>
           (case do (client s) req NilModel st1 of
              ((_, err), st2) \<Rightarrow> (Returned err, st2))))"

section \<open>Recorded exchanges and a test double\<close>

text \<open>The requests built among recorded calls: method, path and payload of each \<open>newRequest\<close>.\<close>

fun requests :: "('w, 'r) call list \<Rightarrow> (string \<times> string \<times> 'w cell option) list" where
  "requests [] = []"
| "requests (NewRequestCall method path payload # cs) = (method, path, payload) # requests cs"
| "requests (DoCall req m # cs) = requests cs"

text \<open>
  One request/response exchange, as every operation performs it: build the request, and
  send it with decoding target \<open>m\<close> unless building it returned an error.
\<close>

definition exchange ::
  "('w, 'r) Client \<Rightarrow> string \<Rightarrow> string \<Rightarrow> 'w cell option \<Rightarrow> model \<Rightarrow> ('w, 'r) call list" where
  "exchange c method path payload m =
     NewRequestCall method path payload #
       (case newRequest_fn c method path payload of
          (req, None) \<Rightarrow> [DoCall req m]
        | (req, Some err) \<Rightarrow> [])"

text \<open>
  A client whose \<open>newRequest\<close> always succeeds, with the pair of method and path as the
  request, and whose \<open>do\<close> answers every request with the same canned reply.
\<close>

definition canned_Client :: "unit iface \<times> error option \<Rightarrow> (unit, string \<times> string) Client" where
  "canned_Client reply =
     \<lparr>newRequest_fn = (\<lambda>method path payload. ((method, path), None)),
      do_fn = (\<lambda>req m. reply)\<rparr>"

definition canned_Variables ::
  "unit iface \<times> error option \<Rightarrow> (unit, string \<times> string) Variables" where
  "canned_Variables reply = \<lparr>client = canned_Client reply\<rparr>"

definition empty_machine :: "(unit, string \<times> string) machine" where
  "empty_machine = \<lparr>heap = [], calls = []\<rparr>"

text \<open>The Go zero values \<open>VariableListOptions{}\<close>, \<open>VariableCreateOptions{}\<close>,
  \<open>VariableUpdateOptions{}\<close> and \<open>Variable{}\<close>.\<close>

definition zero_VariableListOptions :: VariableListOptions where
  "zero_VariableListOptions =
     \<lparr>ListOptions = \<lparr>PageNumber = 0, PageSize = 0\<rparr>, Organization = None, Workspace = None\<rparr>"

definition zero_VariableCreateOptions :: "unit VariableCreateOptions" where
  "zero_VariableCreateOptions =
     \<lparr>VariableCreateOptions.ID = '''', Key = None, Value = None, Category = None,
      HCL = None, Sensitive = None, Workspace = None\<rparr>"

definition zero_VariableUpdateOptions :: VariableUpdateOptions where
  "zero_VariableUpdateOptions =
     \<lparr>ID = '''', Key = None, Value = None, Category = None, HCL = None, Sensitive = None\<rparr>"

definition zero_Variable :: "unit Variable" where
  "zero_Variable =
     \<lparr>Variable.ID = '''', Key = '''', Value = '''', Category = '''', HCL = False,
      Sensitive = False, Workspace = None\<rparr>"

section \<open>Auxiliary facts\<close>

subsection \<open>Slices\<close>

lemma range_append_ptrs:
  "range_append (map ptr_Variable ps) vs =
     Returned (if ps = [] then vs else Some (elems vs @ ps))"
  by (induction ps arbitrary: vs) (auto simp: append_slice_def elems_def split: option.splits)

lemma range_append_Returned:
  "range_append vals vs = Returned vs' \<Longrightarrow>
     \<exists>ps. vals = map ptr_Variable ps \<and> vs' = (if ps = [] then vs else Some (elems vs @ ps))"
proof (induction vals arbitrary: vs)
  case Nil
  then show ?case by simp
next
  case (Cons v rest)
  from Cons.prems obtain p where v: "v = ptr_Variable p"
    by (cases v) simp_all
  with Cons.prems have "range_append rest (append_slice vs p) = Returned vs'"
    by simp
  from Cons.IH [OF this] obtain ps where
    rest: "rest = map ptr_Variable ps" and
    vs': "vs' = (if ps = [] then append_slice vs p else Some (elems (append_slice vs p) @ ps))"
    by blast
  have "v # rest = map ptr_Variable (p # ps)"
    using v rest by simp
  moreover have "vs' = Some (elems vs @ p # ps)"
    using vs' by (cases vs) (simp_all add: elems_def append_slice_def)
  ultimately show ?case
    by (intro exI [of _ "p # ps"]) simp
qed

subsection \<open>Validation\<close>

lemma not_validString: "(\<not> validString v) = (v = None \<or> v = Some [])"
  by (cases v) (simp_all add: validString_def)

lemma valid_ignores_ID:
  "VariableCreateOptions_valid (co\<lparr>VariableCreateOptions.ID := anyID\<rparr>)
     = VariableCreateOptions_valid co"
  by (simp add: VariableCreateOptions_valid_def)

subsection \<open>What each operation returns, writes and issues\<close>

lemma List_returns:
  "fst (List s lo st) =
     (case VariableListOptions_valid lo of
        Some err \<Rightarrow> Returned (None, Some err)
      | None \<Rightarrow>
        (case newRequest_fn (client s) ''GET'' ''vars'' (Some (ListOptionsCell lo)) of
           (req, Some err) \<Rightarrow> Returned (None, Some err)
         | (req, None) \<Rightarrow>
           (case do_fn (client s) req SliceOfVariable of
              (result, Some err) \<Rightarrow> Returned (None, Some err)
            | (result, None) \<Rightarrow>
              (case result of
                 slice_iface vals \<Rightarrow>
                   (case range_append vals None of
                      Returned vs \<Rightarrow> Returned (vs, None)
                    | Panic \<Rightarrow> Panic)
               | _ \<Rightarrow> Panic))))"
  by (simp add: List_def alloc_def newRequest_def do_def load_def
      split: option.splits prod.splits iface.splits outcome.splits)

lemma Create_returns:
  "fst (Create s co st) =
     (case VariableCreateOptions_valid co of
        Some err \<Rightarrow> Returned (None, Some err)
      | None \<Rightarrow>
        (case newRequest_fn (client s) ''POST'' ''vars''
                (Some (CreateOptionsCell (co\<lparr>VariableCreateOptions.ID := ''''\<rparr>))) of
           (req, Some err) \<Rightarrow> Returned (None, Some err)
         | (req, None) \<Rightarrow>
           (case do_fn (client s) req PtrToVariable of
              (v, Some err) \<Rightarrow> Returned (None, Some err)
            | (v, None) \<Rightarrow>
              (case v of ptr_Variable p \<Rightarrow> Returned (p, None) | _ \<Rightarrow> Panic))))"
  by (simp add: Create_def alloc_def store_def newRequest_def do_def load_def
      split: option.splits prod.splits iface.splits)

lemma Update_returns:
  "fst (Update validStringID s variableID uo st) =
     (if \<not> validStringID (Some variableID)
      then Returned (None, Some (errors_New ''Invalid value for variable ID''))
      else
        (case newRequest_fn (client s) ''PATCH'' (''vars/'' @ variableID)
                (Some (UpdateOptionsCell (uo\<lparr>ID := variableID\<rparr>))) of
           (req, Some err) \<Rightarrow> Returned (None, Some err)
         | (req, None) \<Rightarrow>
           (case do_fn (client s) req PtrToVariable of
              (v, Some err) \<Rightarrow> Returned (None, Some err)
            | (v, None) \<Rightarrow>
              (case v of ptr_Variable p \<Rightarrow> Returned (p, None) | _ \<Rightarrow> Panic))))"
  by (simp add: Update_def alloc_def store_def newRequest_def do_def load_def
      split: option.splits prod.splits iface.splits)

lemma Delete_returns:
  "fst (Delete validStringID s variableID st) =
     (if \<not> validStringID (Some variableID)
      then Returned (Some (errors_New ''Invalid value for variable ID''))
      else
        (case newRequest_fn (client s) ''DELETE'' (''vars/'' @ variableID) None of
           (req, Some err) \<Rightarrow> Returned (Some err)
         | (req, None) \<Rightarrow> Returned (snd (do_fn (client s) req NilModel))))"
  by (simp add: Delete_def newRequest_def do_def split: option.splits prod.splits)

lemma List_heap:
  "heap (snd (List s lo st)) = heap st @ [ListOptionsCell lo]"
  by (simp add: List_def alloc_def newRequest_def do_def Let_def
      split: option.splits prod.splits iface.splits outcome.splits)

lemma Create_heap:
  "heap (snd (Create s co st)) =
     heap st @ [CreateOptionsCell
       (if VariableCreateOptions_valid co = None
        then co\<lparr>VariableCreateOptions.ID := ''''\<rparr> else co)]"
  by (simp add: Create_def alloc_def store_def newRequest_def do_def Let_def
      split: option.splits prod.splits iface.splits)

lemma Update_heap:
  "heap (snd (Update validStringID s variableID uo st)) =
     heap st @ [UpdateOptionsCell
       (if validStringID (Some variableID) then uo\<lparr>ID := variableID\<rparr> else uo)]"
  by (simp add: Update_def alloc_def store_def newRequest_def do_def Let_def
      split: option.splits prod.splits iface.splits)

lemma Delete_heap:
  "heap (snd (Delete validStringID s variableID st)) = heap st"
  by (simp add: Delete_def newRequest_def do_def split: option.splits prod.splits)

lemma List_calls:
  "calls (snd (List s lo st)) =
     calls st @
       (case VariableListOptions_valid lo of
          Some err \<Rightarrow> []
        | None \<Rightarrow> exchange (client s) ''GET'' ''vars'' (Some (ListOptionsCell lo)) SliceOfVariable)"
  by (simp add: List_def alloc_def newRequest_def do_def load_def exchange_def
      split: option.splits prod.splits iface.splits outcome.splits)

lemma Create_calls:
  "calls (snd (Create s co st)) =
     calls st @
       (case VariableCreateOptions_valid co of
          Some err \<Rightarrow> []
        | None \<Rightarrow> exchange (client s) ''POST'' ''vars''
            (Some (CreateOptionsCell (co\<lparr>VariableCreateOptions.ID := ''''\<rparr>))) PtrToVariable)"
  by (simp add: Create_def alloc_def store_def newRequest_def do_def load_def exchange_def
      split: option.splits prod.splits iface.splits)

lemma Update_calls:
  "calls (snd (Update validStringID s variableID uo st)) =
     calls st @
       (if \<not> validStringID (Some variableID) then []
        else exchange (client s) ''PATCH'' (''vars/'' @ variableID)
            (Some (UpdateOptionsCell (uo\<lparr>ID := variableID\<rparr>))) PtrToVariable)"
  by (simp add: Update_def alloc_def store_def newRequest_def do_def load_def exchange_def
      split: option.splits prod.splits iface.splits)

lemma Delete_calls:
  "calls (snd (Delete validStringID s variableID st)) =
     calls st @
       (if \<not> validStringID (Some variableID) then []
        else exchange (client s) ''DELETE'' (''vars/'' @ variableID) None NilModel)"
  by (simp add: Delete_def newRequest_def do_def exchange_def
      split: option.splits prod.splits)

lemma requests_exchange: "requests (exchange c method path payload m) = [(method, path, payload)]"
  by (simp add: exchange_def split: prod.splits option.splits)

lemma requests_append: "requests (xs @ ys) = requests xs @ requests ys"
  by (induction xs rule: requests.induct) simp_all

lemma VariableCreateOptions_valid_cases:
  "VariableCreateOptions_valid co =
     (if VariableCreateOptions.Key co = None \<or> VariableCreateOptions.Key co = Some ''''
        then Some (errors_New ''Key is required'')
      else if VariableCreateOptions.Value co = None \<or> VariableCreateOptions.Value co = Some ''''
        then Some (errors_New ''Value is required'')
      else if VariableCreateOptions.Category co = None
        then Some (errors_New ''Category is required'')
      else if VariableCreateOptions.Workspace co = None
        then Some (errors_New ''Workspace is required'')
      else None)"
  by (simp add: VariableCreateOptions_valid_def not_validString)

lemma Create_ignores_ID:
  assumes "VariableCreateOptions_valid co = None"
  shows "Create s (co\<lparr>VariableCreateOptions.ID := anyID\<rparr>) st = Create s co st"
proof -
  have "VariableCreateOptions_valid (co\<lparr>VariableCreateOptions.ID := anyID\<rparr>) = None"
    using assms by (simp only: valid_ignores_ID)
  with assms show ?thesis
    by (simp add: Create_def alloc_def store_def)
qed

lemma Update_ignores_ID:
  assumes "validStringID (Some variableID)"
  shows "Update validStringID s variableID (uo\<lparr>ID := anyID\<rparr>) st
           = Update validStringID s variableID uo st"
  using assms by (simp add: Update_def alloc_def store_def)

lemma List_decodes:
  assumes "VariableListOptions_valid lo = None"
    and "newRequest_fn (client s) ''GET'' ''vars'' (Some (ListOptionsCell lo)) = (req, None)"
    and "do_fn (client s) req SliceOfVariable = (slice_iface (map ptr_Variable ps), None)"
  shows "fst (List s lo st) = Returned (if ps = [] then None else Some ps, None)"
  using assms by (simp add: List_returns range_append_ptrs elems_def)

lemma List_error_nil:
  "fst (List s lo st) = Returned (vs, Some e) \<Longrightarrow> vs = None"
  by (simp add: List_returns
      split: option.split_asm prod.split_asm iface.split_asm outcome.split_asm)

lemma Create_error_nil:
  "fst (Create s co st) = Returned (v, Some e) \<Longrightarrow> v = None"
  by (simp add: Create_returns split: option.split_asm prod.split_asm iface.split_asm)

lemma Update_error_nil:
  "fst (Update validStringID s variableID uo st) = Returned (v, Some e) \<Longrightarrow> v = None"
  by (simp add: Update_returns
      split: if_split_asm option.split_asm prod.split_asm iface.split_asm)

section \<open>Local validation\<close>

text \<open>
  Claim C1. An input that fails local validation (the options of \<open>List\<close> or
  \<open>Create\<close> failing \<open>valid\<close>, or the identifier of \<open>Update\<close> or
  \<open>Delete\<close> failing \<open>validStringID\<close>) makes the operation return the validation
  error with a nil result, and the recorded calls are the ones recorded before: neither
  \<open>newRequest\<close> nor \<open>do\<close> has been invoked.
\<close>

theorem invalid_input_issues_no_call:
  "(VariableListOptions_valid lo = Some e1 \<longrightarrow>
      fst (List s lo st) = Returned (None, Some e1) \<and> calls (snd (List s lo st)) = calls st)
   \<and> (VariableCreateOptions_valid co = Some e2 \<longrightarrow>
      fst (Create s co st) = Returned (None, Some e2) \<and> calls (snd (Create s co st)) = calls st)
   \<and> (\<not> validStringID (Some variableID) \<longrightarrow>
      fst (Update validStringID s variableID uo st)
        = Returned (None, Some (errors_New ''Invalid value for variable ID''))
      \<and> calls (snd (Update validStringID s variableID uo st)) = calls st
      \<and> fst (Delete validStringID s variableID st)
        = Returned (Some (errors_New ''Invalid value for variable ID''))
      \<and> calls (snd (Delete validStringID s variableID st)) = calls st)"
  by (simp add: List_returns Create_returns Update_returns Delete_returns
      List_calls Create_calls Update_calls Delete_calls)

theorem invalid_input_issues_no_call_witness:
  "VariableListOptions_valid zero_VariableListOptions
     = Some (errors_New ''Organization is required'')
   \<and> fst (List (canned_Variables (nil_iface, None)) zero_VariableListOptions empty_machine)
     = Returned (None, Some (errors_New ''Organization is required''))
   \<and> calls (snd (List (canned_Variables (nil_iface, None)) zero_VariableListOptions
       empty_machine)) = []
   \<and> VariableCreateOptions_valid zero_VariableCreateOptions
     = Some (errors_New ''Key is required'')
   \<and> fst (Create (canned_Variables (nil_iface, None)) zero_VariableCreateOptions empty_machine)
     = Returned (None, Some (errors_New ''Key is required''))
   \<and> calls (snd (Create (canned_Variables (nil_iface, None)) zero_VariableCreateOptions
       empty_machine)) = []
   \<and> \<not> (\<lambda>v. v \<noteq> Some '''') (Some '''')
   \<and> fst (Update (\<lambda>v. v \<noteq> Some '''') (canned_Variables (nil_iface, None)) ''''
       zero_VariableUpdateOptions empty_machine)
     = Returned (None, Some (errors_New ''Invalid value for variable ID''))
   \<and> calls (snd (Update (\<lambda>v. v \<noteq> Some '''') (canned_Variables (nil_iface, None)) ''''
       zero_VariableUpdateOptions empty_machine)) = []
   \<and> fst (Delete (\<lambda>v. v \<noteq> Some '''') (canned_Variables (nil_iface, None)) '''' empty_machine)
     = Returned (Some (errors_New ''Invalid value for variable ID''))
   \<and> calls (snd (Delete (\<lambda>v. v \<noteq> Some '''') (canned_Variables (nil_iface, None)) ''''
       empty_machine)) = []"
proof -
  have l: "VariableListOptions_valid zero_VariableListOptions
      = Some (errors_New ''Organization is required'')"
    by (simp add: VariableListOptions_valid_def zero_VariableListOptions_def validString_def)
  have c: "VariableCreateOptions_valid zero_VariableCreateOptions
      = Some (errors_New ''Key is required'')"
    by (simp add: VariableCreateOptions_valid_def zero_VariableCreateOptions_def validString_def)
  show ?thesis
    using l c
      invalid_input_issues_no_call [where lo = zero_VariableListOptions
        and ?e1.0 = "errors_New ''Organization is required''"
        and co = zero_VariableCreateOptions and ?e2.0 = "errors_New ''Key is required''"
        and validStringID = "\<lambda>v. v \<noteq> Some ''''" and variableID = "''''"
        and uo = zero_VariableUpdateOptions
        and s = "canned_Variables (nil_iface, None)" and st = empty_machine]
    by (simp add: empty_machine_def)
qed

text \<open>
  Claim C2. \<open>List\<close> checks Organization before Workspace and returns one error: when
  Organization is absent or empty it returns the Organization error whatever Workspace
  is; when Organization is a non-empty string and Workspace is absent or empty it returns
  the Workspace error.
\<close>

theorem List_validation_order:
  "((Organization lo = None \<or> Organization lo = Some '''') \<longrightarrow>
      fst (List s lo st) = Returned (None, Some (errors_New ''Organization is required'')))
   \<and> ((\<exists>org. Organization lo = Some org \<and> org \<noteq> '''')
        \<and> (VariableListOptions.Workspace lo = None \<or> VariableListOptions.Workspace lo = Some '''') \<longrightarrow>
      fst (List s lo st) = Returned (None, Some (errors_New ''Workspace is required'')))"
proof (intro conjI impI)
  assume "Organization lo = None \<or> Organization lo = Some ''''"
  then have "VariableListOptions_valid lo = Some (errors_New ''Organization is required'')"
    by (simp add: VariableListOptions_valid_def not_validString)
  then show "fst (List s lo st) = Returned (None, Some (errors_New ''Organization is required''))"
    by (simp add: List_returns)
next
  assume "(\<exists>org. Organization lo = Some org \<and> org \<noteq> '''')
    \<and> (VariableListOptions.Workspace lo = None \<or> VariableListOptions.Workspace lo = Some '''')"
  then have "VariableListOptions_valid lo = Some (errors_New ''Workspace is required'')"
    by (auto simp add: VariableListOptions_valid_def not_validString)
  then show "fst (List s lo st) = Returned (None, Some (errors_New ''Workspace is required''))"
    by (simp add: List_returns)
qed

theorem List_validation_order_witness:
  "(Organization (zero_VariableListOptions\<lparr>VariableListOptions.Workspace := Some ''ws''\<rparr>) = None
      \<or> Organization (zero_VariableListOptions\<lparr>VariableListOptions.Workspace := Some ''ws''\<rparr>) = Some '''')
   \<and> fst (List (canned_Variables (nil_iface, None))
         (zero_VariableListOptions\<lparr>VariableListOptions.Workspace := Some ''ws''\<rparr>) empty_machine)
     = Returned (None, Some (errors_New ''Organization is required''))
   \<and> (\<exists>org. Organization (zero_VariableListOptions\<lparr>Organization := Some ''org''\<rparr>) = Some org
        \<and> org \<noteq> '''')
   \<and> (VariableListOptions.Workspace (zero_VariableListOptions\<lparr>Organization := Some ''org''\<rparr>)
        = None
      \<or> VariableListOptions.Workspace (zero_VariableListOptions\<lparr>Organization := Some ''org''\<rparr>)
        = Some '''')
   \<and> fst (List (canned_Variables (nil_iface, None))
         (zero_VariableListOptions\<lparr>Organization := Some ''org''\<rparr>) empty_machine)
     = Returned (None, Some (errors_New ''Workspace is required''))"
  using List_validation_order [where lo = "zero_VariableListOptions\<lparr>VariableListOptions.Workspace := Some ''ws''\<rparr>"
      and s = "canned_Variables (nil_iface, None)" and st = empty_machine]
    List_validation_order [where lo = "zero_VariableListOptions\<lparr>Organization := Some ''org''\<rparr>"
      and s = "canned_Variables (nil_iface, None)" and st = empty_machine]
  by (simp add: zero_VariableListOptions_def)

text \<open>
  Claim C3. \<open>Create\<close> checks Key, then Value, then Category, then Workspace and returns
  the error of the first field that fails. Key and Value fail when absent or empty;
  Category and Workspace fail only when nil, so an empty category string passes.
\<close>

theorem Create_validation_order:
  "((VariableCreateOptions.Key co = None \<or> VariableCreateOptions.Key co = Some '''') \<longrightarrow>
      fst (Create s co st) = Returned (None, Some (errors_New ''Key is required'')))
   \<and> ((\<exists>k. VariableCreateOptions.Key co = Some k \<and> k \<noteq> '''')
        \<and> (VariableCreateOptions.Value co = None \<or> VariableCreateOptions.Value co = Some '''') \<longrightarrow>
      fst (Create s co st) = Returned (None, Some (errors_New ''Value is required'')))
   \<and> ((\<exists>k. VariableCreateOptions.Key co = Some k \<and> k \<noteq> '''')
        \<and> (\<exists>v. VariableCreateOptions.Value co = Some v \<and> v \<noteq> '''')
        \<and> VariableCreateOptions.Category co = None \<longrightarrow>
      fst (Create s co st) = Returned (None, Some (errors_New ''Category is required'')))
   \<and> ((\<exists>k. VariableCreateOptions.Key co = Some k \<and> k \<noteq> '''')
        \<and> (\<exists>v. VariableCreateOptions.Value co = Some v \<and> v \<noteq> '''')
        \<and> VariableCreateOptions.Category co = Some cat
        \<and> VariableCreateOptions.Workspace co = None \<longrightarrow>
      fst (Create s co st) = Returned (None, Some (errors_New ''Workspace is required'')))
   \<and> ((\<exists>k. VariableCreateOptions.Key co = Some k \<and> k \<noteq> '''')
        \<and> (\<exists>v. VariableCreateOptions.Value co = Some v \<and> v \<noteq> '''')
        \<and> VariableCreateOptions.Category co = Some cat
        \<and> VariableCreateOptions.Workspace co = Some w \<longrightarrow>
      VariableCreateOptions_valid co = None)"
proof (intro conjI impI)
  assume "VariableCreateOptions.Key co = None \<or> VariableCreateOptions.Key co = Some ''''"
  then have "VariableCreateOptions_valid co = Some (errors_New ''Key is required'')"
    by (simp add: VariableCreateOptions_valid_cases)
  then show "fst (Create s co st) = Returned (None, Some (errors_New ''Key is required''))"
    by (simp add: Create_returns)
next
  assume "(\<exists>k. VariableCreateOptions.Key co = Some k \<and> k \<noteq> '''')
    \<and> (VariableCreateOptions.Value co = None \<or> VariableCreateOptions.Value co = Some '''')"
  then have "VariableCreateOptions_valid co = Some (errors_New ''Value is required'')"
    by (auto simp add: VariableCreateOptions_valid_cases)
  then show "fst (Create s co st) = Returned (None, Some (errors_New ''Value is required''))"
    by (simp add: Create_returns)
next
  assume "(\<exists>k. VariableCreateOptions.Key co = Some k \<and> k \<noteq> '''')
    \<and> (\<exists>v. VariableCreateOptions.Value co = Some v \<and> v \<noteq> '''')
    \<and> VariableCreateOptions.Category co = None"
  then have "VariableCreateOptions_valid co = Some (errors_New ''Category is required'')"
    by (auto simp add: VariableCreateOptions_valid_cases)
  then show "fst (Create s co st) = Returned (None, Some (errors_New ''Category is required''))"
    by (simp add: Create_returns)
next
  assume "(\<exists>k. VariableCreateOptions.Key co = Some k \<and> k \<noteq> '''')
    \<and> (\<exists>v. VariableCreateOptions.Value co = Some v \<and> v \<noteq> '''')
    \<and> VariableCreateOptions.Category co = Some cat
    \<and> VariableCreateOptions.Workspace co = None"
  then have "VariableCreateOptions_valid co = Some (errors_New ''Workspace is required'')"
    by (auto simp add: VariableCreateOptions_valid_cases)
  then show "fst (Create s co st) = Returned (None, Some (errors_New ''Workspace is required''))"
    by (simp add: Create_returns)
next
  assume "(\<exists>k. VariableCreateOptions.Key co = Some k \<and> k \<noteq> '''')
    \<and> (\<exists>v. VariableCreateOptions.Value co = Some v \<and> v \<noteq> '''')
    \<and> VariableCreateOptions.Category co = Some cat
    \<and> VariableCreateOptions.Workspace co = Some w"
  then show "VariableCreateOptions_valid co = None"
    by (auto simp add: VariableCreateOptions_valid_cases)
qed

theorem Create_validation_order_witness:
  "(VariableCreateOptions.Key zero_VariableCreateOptions = None
      \<or> VariableCreateOptions.Key zero_VariableCreateOptions = Some '''')
   \<and> fst (Create (canned_Variables (nil_iface, None)) zero_VariableCreateOptions empty_machine)
     = Returned (None, Some (errors_New ''Key is required''))
   \<and> fst (Create (canned_Variables (nil_iface, None))
         (zero_VariableCreateOptions\<lparr>VariableCreateOptions.Key := Some ''k'', VariableCreateOptions.Value := Some ''''\<rparr>) empty_machine)
     = Returned (None, Some (errors_New ''Value is required''))
   \<and> fst (Create (canned_Variables (nil_iface, None))
         (zero_VariableCreateOptions\<lparr>VariableCreateOptions.Key := Some ''k'', VariableCreateOptions.Value := Some ''v''\<rparr>) empty_machine)
     = Returned (None, Some (errors_New ''Category is required''))
   \<and> fst (Create (canned_Variables (nil_iface, None))
         (zero_VariableCreateOptions\<lparr>VariableCreateOptions.Key := Some ''k'', VariableCreateOptions.Value := Some ''v'',
            VariableCreateOptions.Category := Some ''''\<rparr>) empty_machine)
     = Returned (None, Some (errors_New ''Workspace is required''))
   \<and> VariableCreateOptions_valid
         (zero_VariableCreateOptions\<lparr>VariableCreateOptions.Key := Some ''k'', VariableCreateOptions.Value := Some ''v'',
            VariableCreateOptions.Category := Some '''', VariableCreateOptions.Workspace := Some ()\<rparr>)
     = None"
  using Create_validation_order [where co = zero_VariableCreateOptions
      and s = "canned_Variables (nil_iface, None)" and st = empty_machine]
    Create_validation_order [where
      co = "zero_VariableCreateOptions\<lparr>VariableCreateOptions.Key := Some ''k'', VariableCreateOptions.Value := Some ''''\<rparr>"
      and s = "canned_Variables (nil_iface, None)" and st = empty_machine]
    Create_validation_order [where
      co = "zero_VariableCreateOptions\<lparr>VariableCreateOptions.Key := Some ''k'', VariableCreateOptions.Value := Some ''v''\<rparr>"
      and s = "canned_Variables (nil_iface, None)" and st = empty_machine]
    Create_validation_order [where
      co = "zero_VariableCreateOptions\<lparr>VariableCreateOptions.Key := Some ''k'', VariableCreateOptions.Value := Some ''v'',
            VariableCreateOptions.Category := Some ''''\<rparr>"
      and cat = "''''" and s = "canned_Variables (nil_iface, None)" and st = empty_machine]
    Create_validation_order [where
      co = "zero_VariableCreateOptions\<lparr>VariableCreateOptions.Key := Some ''k'', VariableCreateOptions.Value := Some ''v'',
            VariableCreateOptions.Category := Some '''', VariableCreateOptions.Workspace := Some ()\<rparr>"
      and cat = "''''" and w = "()" and s = "canned_Variables (nil_iface, None)" and st = empty_machine]
  by (simp add: zero_VariableCreateOptions_def)

section \<open>Requests issued\<close>

text \<open>
  Claim C4. When the options of \<open>Create\<close> pass validation, the one request it builds
  carries the options with the ID field set to the empty string, and the whole call
  (results, store and recorded calls) is the same whatever ID the caller had set.
\<close>

theorem Create_clears_ID:
  "VariableCreateOptions_valid co = None \<Longrightarrow>
     requests (calls (snd (Create s co st)))
       = requests (calls st)
         @ [(''POST'', ''vars'',
             Some (CreateOptionsCell (co\<lparr>VariableCreateOptions.ID := ''''\<rparr>)))]
     \<and> VariableCreateOptions.ID (co\<lparr>VariableCreateOptions.ID := ''''\<rparr>) = ''''
     \<and> Create s (co\<lparr>VariableCreateOptions.ID := anyID\<rparr>) st = Create s co st"
  by (simp add: Create_calls requests_append requests_exchange Create_ignores_ID)

theorem Create_clears_ID_witness:
  "VariableCreateOptions_valid
     \<lparr>VariableCreateOptions.ID = ''chosen-by-caller'', Key = Some ''k'', Value = Some ''v'',
      Category = Some CategoryTerraform, HCL = None, Sensitive = None, Workspace = Some ()\<rparr>
     = None
   \<and> requests (calls (snd (Create (canned_Variables (ptr_Variable (Some zero_Variable), None))
       \<lparr>VariableCreateOptions.ID = ''chosen-by-caller'', Key = Some ''k'', Value = Some ''v'',
        Category = Some CategoryTerraform, HCL = None, Sensitive = None, Workspace = Some ()\<rparr>
       empty_machine)))
     = [(''POST'', ''vars'',
         Some (CreateOptionsCell
           \<lparr>VariableCreateOptions.ID = '''', Key = Some ''k'', Value = Some ''v'',
            Category = Some CategoryTerraform, HCL = None, Sensitive = None,
            Workspace = Some ()\<rparr>))]"
proof -
  have v: "VariableCreateOptions_valid
     \<lparr>VariableCreateOptions.ID = ''chosen-by-caller'', Key = Some ''k'', Value = Some ''v'',
      Category = Some CategoryTerraform, HCL = None, Sensitive = None, Workspace = Some ()\<rparr>
     = None"
    by (simp add: VariableCreateOptions_valid_def validString_def)
  show ?thesis
    using v Create_clears_ID [OF v,
        where s = "canned_Variables (ptr_Variable (Some zero_Variable), None)"
          and st = empty_machine]
    by (simp add: empty_machine_def)
qed

text \<open>
  Claim C5. When \<open>variableID\<close> passes the identifier check, the one request \<open>Update\<close>
  builds has the path \<open>vars/\<close> followed by \<open>variableID\<close> and carries the options with
  the ID field equal to \<open>variableID\<close>, and the whole call is the same whatever ID the caller
  had set in the options.
\<close>

theorem Update_forces_ID:
  "validStringID (Some variableID) \<Longrightarrow>
     requests (calls (snd (Update validStringID s variableID uo st)))
       = requests (calls st)
         @ [(''PATCH'', ''vars/'' @ variableID,
             Some (UpdateOptionsCell (uo\<lparr>ID := variableID\<rparr>)))]
     \<and> VariableUpdateOptions.ID (uo\<lparr>ID := variableID\<rparr>) = variableID
     \<and> Update validStringID s variableID (uo\<lparr>ID := anyID\<rparr>) st
         = Update validStringID s variableID uo st"
  by (simp add: Update_calls requests_append requests_exchange Update_ignores_ID)

theorem Update_forces_ID_witness:
  "(\<lambda>v. v \<noteq> Some '''') (Some ''var-123'')
   \<and> requests (calls (snd (Update (\<lambda>v. v \<noteq> Some '''')
       (canned_Variables (ptr_Variable (Some zero_Variable), None)) ''var-123''
       (zero_VariableUpdateOptions\<lparr>ID := ''var-999'', Key := Some ''newname''\<rparr>)
       empty_machine)))
     = [(''PATCH'', ''vars/var-123'',
         Some (UpdateOptionsCell
           (zero_VariableUpdateOptions\<lparr>ID := ''var-123'', Key := Some ''newname''\<rparr>)))]"
proof -
  have v: "(\<lambda>v. v \<noteq> Some '''') (Some ''var-123'')"
    by simp
  show ?thesis
    using v Update_forces_ID [of "\<lambda>v. v \<noteq> Some ''''" "''var-123''", OF v,
        where s = "canned_Variables (ptr_Variable (Some zero_Variable), None)"
          and st = empty_machine
          and uo = "zero_VariableUpdateOptions\<lparr>ID := ''var-999'', Key := Some ''newname''\<rparr>"]
    by (simp add: empty_machine_def zero_VariableUpdateOptions_def)
qed

text \<open>
  Claim C6. On valid input each operation performs exactly one exchange with its own
  method and path: \<open>List\<close> GET on \<open>vars\<close>, \<open>Create\<close> POST on \<open>vars\<close>,
  \<open>Update\<close> PATCH on \<open>vars/\<close> followed by the identifier, \<open>Delete\<close> DELETE on
  \<open>vars/\<close> followed by the identifier. \<open>Delete\<close> passes a nil payload and a nil
  decoding target, and returns the error of the exchange without looking at the value.
\<close>

theorem operations_method_and_path:
  "(VariableListOptions_valid lo = None \<longrightarrow>
      calls (snd (List s lo st))
        = calls st
          @ exchange (client s) ''GET'' ''vars'' (Some (ListOptionsCell lo)) SliceOfVariable)
   \<and> (VariableCreateOptions_valid co = None \<longrightarrow>
      calls (snd (Create s co st))
        = calls st
          @ exchange (client s) ''POST'' ''vars''
              (Some (CreateOptionsCell (co\<lparr>VariableCreateOptions.ID := ''''\<rparr>)))
              PtrToVariable)
   \<and> (validStringID (Some variableID) \<longrightarrow>
      calls (snd (Update validStringID s variableID uo st))
        = calls st
          @ exchange (client s) ''PATCH'' (''vars/'' @ variableID)
              (Some (UpdateOptionsCell (uo\<lparr>ID := variableID\<rparr>))) PtrToVariable
      \<and> calls (snd (Delete validStringID s variableID st))
        = calls st @ exchange (client s) ''DELETE'' (''vars/'' @ variableID) None NilModel
      \<and> fst (Delete validStringID s variableID st)
        = (case newRequest_fn (client s) ''DELETE'' (''vars/'' @ variableID) None of
             (req, Some err) \<Rightarrow> Returned (Some err)
           | (req, None) \<Rightarrow> Returned (snd (do_fn (client s) req NilModel))))"
  by (simp add: List_calls Create_calls Update_calls Delete_calls Delete_returns)

theorem operations_method_and_path_witness:
  "VariableListOptions_valid
     (zero_VariableListOptions\<lparr>Organization := Some ''org'',
        VariableListOptions.Workspace := Some ''ws''\<rparr>) = None
   \<and> calls (snd (List (canned_Variables (slice_iface [], None))
       (zero_VariableListOptions\<lparr>Organization := Some ''org'',
          VariableListOptions.Workspace := Some ''ws''\<rparr>) empty_machine))
     = [NewRequestCall ''GET'' ''vars''
          (Some (ListOptionsCell
            (zero_VariableListOptions\<lparr>Organization := Some ''org'',
               VariableListOptions.Workspace := Some ''ws''\<rparr>))),
        DoCall (''GET'', ''vars'') SliceOfVariable]
   \<and> VariableCreateOptions_valid
     (zero_VariableCreateOptions\<lparr>VariableCreateOptions.Key := Some ''k'',
        VariableCreateOptions.Value := Some ''v'',
        VariableCreateOptions.Category := Some CategoryEnv,
        VariableCreateOptions.Workspace := Some ()\<rparr>) = None
   \<and> calls (snd (Create (canned_Variables (slice_iface [], None))
       (zero_VariableCreateOptions\<lparr>VariableCreateOptions.Key := Some ''k'',
          VariableCreateOptions.Value := Some ''v'',
          VariableCreateOptions.Category := Some CategoryEnv,
          VariableCreateOptions.Workspace := Some ()\<rparr>) empty_machine))
     = [NewRequestCall ''POST'' ''vars''
          (Some (CreateOptionsCell
            (zero_VariableCreateOptions\<lparr>VariableCreateOptions.Key := Some ''k'',
               VariableCreateOptions.Value := Some ''v'',
               VariableCreateOptions.Category := Some CategoryEnv,
               VariableCreateOptions.Workspace := Some ()\<rparr>))),
        DoCall (''POST'', ''vars'') PtrToVariable]
   \<and> (\<lambda>v. v \<noteq> Some '''') (Some ''var-123'')
   \<and> calls (snd (Update (\<lambda>v. v \<noteq> Some '''') (canned_Variables (slice_iface [], None))
       ''var-123'' zero_VariableUpdateOptions empty_machine))
     = [NewRequestCall ''PATCH'' ''vars/var-123''
          (Some (UpdateOptionsCell (zero_VariableUpdateOptions\<lparr>ID := ''var-123''\<rparr>))),
        DoCall (''PATCH'', ''vars/var-123'') PtrToVariable]
   \<and> calls (snd (Delete (\<lambda>v. v \<noteq> Some '''') (canned_Variables (slice_iface [], None))
       ''var-123'' empty_machine))
     = [NewRequestCall ''DELETE'' ''vars/var-123'' None,
        DoCall (''DELETE'', ''vars/var-123'') NilModel]
   \<and> fst (Delete (\<lambda>v. v \<noteq> Some '''') (canned_Variables (slice_iface [], None))
       ''var-123'' empty_machine)
     = Returned None"
  using operations_method_and_path [where
      lo = "zero_VariableListOptions\<lparr>Organization := Some ''org'',
        VariableListOptions.Workspace := Some ''ws''\<rparr>"
      and co = "zero_VariableCreateOptions\<lparr>VariableCreateOptions.Key := Some ''k'',
        VariableCreateOptions.Value := Some ''v'',
        VariableCreateOptions.Category := Some CategoryEnv,
        VariableCreateOptions.Workspace := Some ()\<rparr>"
      and validStringID = "\<lambda>v. v \<noteq> Some ''''" and variableID = "''var-123''"
      and uo = zero_VariableUpdateOptions
      and s = "canned_Variables (slice_iface [], None)" and st = empty_machine]
  by (simp add: VariableListOptions_valid_def VariableCreateOptions_valid_def validString_def
      zero_VariableListOptions_def zero_VariableCreateOptions_def zero_VariableUpdateOptions_def
      empty_machine_def canned_Variables_def canned_Client_def exchange_def)

section \<open>Results\<close>

text \<open>
  Claim C7. A returned non-nil error comes with the zero result: \<open>List\<close> returns the nil
  slice with it, \<open>Create\<close> and \<open>Update\<close> the nil pointer, also when \<open>do\<close> itself
  answered with both a value and an error.
\<close>

theorem error_comes_with_zero_result:
  "(fst (List s lo st) = Returned (vs, Some e1) \<longrightarrow> vs = None)
   \<and> (fst (Create s co st) = Returned (v, Some e2) \<longrightarrow> v = None)
   \<and> (fst (Update validStringID s variableID uo st) = Returned (v', Some e3) \<longrightarrow> v' = None)"
  by (blast intro: List_error_nil Create_error_nil Update_error_nil)

theorem error_comes_with_zero_result_witness:
  "fst (List (canned_Variables (slice_iface [ptr_Variable (Some zero_Variable)],
           Some (errors_New ''Resource not found'')))
       (zero_VariableListOptions\<lparr>Organization := Some ''org'',
          VariableListOptions.Workspace := Some ''ws''\<rparr>) empty_machine)
     = Returned (None, Some (errors_New ''Resource not found''))
   \<and> fst (Create (canned_Variables (ptr_Variable (Some zero_Variable),
           Some (errors_New ''Resource not found'')))
       (zero_VariableCreateOptions\<lparr>VariableCreateOptions.Key := Some ''k'',
          VariableCreateOptions.Value := Some ''v'',
          VariableCreateOptions.Category := Some CategoryEnv,
          VariableCreateOptions.Workspace := Some ()\<rparr>) empty_machine)
     = Returned (None, Some (errors_New ''Resource not found''))
   \<and> fst (Update (\<lambda>v. v \<noteq> Some '''') (canned_Variables (ptr_Variable (Some zero_Variable),
           Some (errors_New ''Resource not found'')))
       ''var-123'' zero_VariableUpdateOptions empty_machine)
     = Returned (None, Some (errors_New ''Resource not found''))"
  using error_comes_with_zero_result [where
      s = "canned_Variables (slice_iface [ptr_Variable (Some zero_Variable)],
           Some (errors_New ''Resource not found''))"
      and lo = "zero_VariableListOptions\<lparr>Organization := Some ''org'',
          VariableListOptions.Workspace := Some ''ws''\<rparr>"
      and st = empty_machine and vs = None and ?e1.0 = "errors_New ''Resource not found''"]
    error_comes_with_zero_result [where
      s = "canned_Variables (ptr_Variable (Some zero_Variable),
           Some (errors_New ''Resource not found''))"
      and co = "zero_VariableCreateOptions\<lparr>VariableCreateOptions.Key := Some ''k'',
          VariableCreateOptions.Value := Some ''v'',
          VariableCreateOptions.Category := Some CategoryEnv,
          VariableCreateOptions.Workspace := Some ()\<rparr>"
      and st = empty_machine and v = None and ?e2.0 = "errors_New ''Resource not found''"
      and validStringID = "\<lambda>v. v \<noteq> Some []" and variableID = "''var-123''"
      and uo = zero_VariableUpdateOptions and v' = None
      and ?e3.0 = "errors_New ''Resource not found''"]
  by (simp add: List_returns Create_returns Update_returns
      VariableListOptions_valid_def VariableCreateOptions_valid_def validString_def
      zero_VariableListOptions_def zero_VariableCreateOptions_def
      canned_Variables_def canned_Client_def)

text \<open>
  Claim C8. When the options of \<open>List\<close> pass validation, the request is built and
  \<open>do\<close> answers with a collection of zero variables and no error, \<open>List\<close> returns a
  slice of length zero and a nil error.
\<close>

theorem List_empty_is_success:
  assumes "VariableListOptions_valid lo = None"
    and "newRequest_fn (client s) ''GET'' ''vars'' (Some (ListOptionsCell lo)) = (req, None)"
    and "do_fn (client s) req SliceOfVariable = (slice_iface [], None)"
  shows "\<exists>vs. fst (List s lo st) = Returned (vs, None) \<and> len vs = 0 \<and> elems vs = []"
  using assms by (simp add: List_returns len_def elems_def)

theorem List_empty_is_success_witness:
  "VariableListOptions_valid
     (zero_VariableListOptions\<lparr>Organization := Some ''org'',
        VariableListOptions.Workspace := Some ''ws''\<rparr>) = None
   \<and> newRequest_fn (client (canned_Variables (slice_iface [], None))) ''GET'' ''vars''
       (Some (ListOptionsCell
         (zero_VariableListOptions\<lparr>Organization := Some ''org'',
            VariableListOptions.Workspace := Some ''ws''\<rparr>)))
     = ((''GET'', ''vars''), None)
   \<and> do_fn (client (canned_Variables (slice_iface [], None))) (''GET'', ''vars'') SliceOfVariable
     = (slice_iface [], None)
   \<and> (\<exists>vs. fst (List (canned_Variables (slice_iface [], None))
         (zero_VariableListOptions\<lparr>Organization := Some ''org'',
            VariableListOptions.Workspace := Some ''ws''\<rparr>) empty_machine)
       = Returned (vs, None) \<and> len vs = 0 \<and> elems vs = [])"
proof -
  have v: "VariableListOptions_valid
     (zero_VariableListOptions\<lparr>Organization := Some ''org'',
        VariableListOptions.Workspace := Some ''ws''\<rparr>) = None"
    by (simp add: VariableListOptions_valid_def validString_def zero_VariableListOptions_def)
  have n: "newRequest_fn (client (canned_Variables (slice_iface [], None))) ''GET'' ''vars''
       (Some (ListOptionsCell
         (zero_VariableListOptions\<lparr>Organization := Some ''org'',
            VariableListOptions.Workspace := Some ''ws''\<rparr>)))
     = ((''GET'', ''vars''), None)"
    by (simp add: canned_Variables_def canned_Client_def)
  have d: "do_fn (client (canned_Variables (slice_iface [], None))) (''GET'', ''vars'')
       SliceOfVariable = (slice_iface [], None)"
    by (simp add: canned_Variables_def canned_Client_def)
  from List_empty_is_success [OF v n d, of empty_machine] v n d
  show ?thesis by simp
qed

text \<open>
  Claim C9. Whenever \<open>List\<close> returns a slice with a nil error, the value \<open>do\<close> decoded
  is a \<open>[]interface{}\<close> holding exactly the returned pointers, in the same order and of
  the same length: nothing is sorted, dropped, added or moved.
\<close>

theorem List_preserves_order:
  assumes "VariableListOptions_valid lo = None"
    and "newRequest_fn (client s) ''GET'' ''vars'' (Some (ListOptionsCell lo)) = (req, None)"
    and "do_fn (client s) req SliceOfVariable = (result, None)"
    and "fst (List s lo st) = Returned (vs, None)"
  shows "result = slice_iface (map ptr_Variable (elems vs))
         \<and> len vs = length (elems vs)"
proof -
  from assms obtain vals where result: "result = slice_iface vals"
    and run: "range_append vals None = Returned vs"
    by (simp add: List_returns split: iface.split_asm outcome.split_asm)
  from range_append_Returned [OF run] obtain ps where
    "vals = map ptr_Variable ps" "vs = (if ps = [] then None else Some (elems None @ ps))"
    by blast
  then show ?thesis
    using result by (auto simp add: elems_def len_def)
qed

theorem List_preserves_order_witness:
  "VariableListOptions_valid
     (zero_VariableListOptions\<lparr>Organization := Some ''org'',
        VariableListOptions.Workspace := Some ''ws''\<rparr>) = None
   \<and> newRequest_fn
       (client (canned_Variables
         (slice_iface [ptr_Variable (Some (zero_Variable\<lparr>Variable.Key := ''b''\<rparr>)),
                       ptr_Variable (Some (zero_Variable\<lparr>Variable.Key := ''a''\<rparr>)),
                       ptr_Variable (Some (zero_Variable\<lparr>Variable.Key := ''b''\<rparr>))], None)))
       ''GET'' ''vars''
       (Some (ListOptionsCell
         (zero_VariableListOptions\<lparr>Organization := Some ''org'',
            VariableListOptions.Workspace := Some ''ws''\<rparr>)))
     = ((''GET'', ''vars''), None)
   \<and> fst (List (canned_Variables
         (slice_iface [ptr_Variable (Some (zero_Variable\<lparr>Variable.Key := ''b''\<rparr>)),
                       ptr_Variable (Some (zero_Variable\<lparr>Variable.Key := ''a''\<rparr>)),
                       ptr_Variable (Some (zero_Variable\<lparr>Variable.Key := ''b''\<rparr>))], None))
         (zero_VariableListOptions\<lparr>Organization := Some ''org'',
            VariableListOptions.Workspace := Some ''ws''\<rparr>) empty_machine)
     = Returned (Some [Some (zero_Variable\<lparr>Variable.Key := ''b''\<rparr>),
                       Some (zero_Variable\<lparr>Variable.Key := ''a''\<rparr>),
                       Some (zero_Variable\<lparr>Variable.Key := ''b''\<rparr>)], None)
   \<and> len (Some [Some (zero_Variable\<lparr>Variable.Key := ''b''\<rparr>),
                Some (zero_Variable\<lparr>Variable.Key := ''a''\<rparr>),
                Some (zero_Variable\<lparr>Variable.Key := ''b''\<rparr>)]) = 3"
proof -
  let ?lo = "zero_VariableListOptions\<lparr>Organization := Some ''org'',
        VariableListOptions.Workspace := Some ''ws''\<rparr>"
  let ?b = "zero_Variable\<lparr>Variable.Key := ''b''\<rparr>"
  let ?a = "zero_Variable\<lparr>Variable.Key := ''a''\<rparr>"
  let ?s = "canned_Variables
    (slice_iface [ptr_Variable (Some ?b), ptr_Variable (Some ?a), ptr_Variable (Some ?b)], None)"
  have v: "VariableListOptions_valid ?lo = None"
    by (simp add: VariableListOptions_valid_def validString_def zero_VariableListOptions_def)
  have n: "newRequest_fn (client ?s) ''GET'' ''vars'' (Some (ListOptionsCell ?lo))
      = ((''GET'', ''vars''), None)"
    by (simp add: canned_Variables_def canned_Client_def)
  have d: "do_fn (client ?s) (''GET'', ''vars'') SliceOfVariable
      = (slice_iface [ptr_Variable (Some ?b), ptr_Variable (Some ?a), ptr_Variable (Some ?b)],
         None)"
    by (simp add: canned_Variables_def canned_Client_def)
  have r: "fst (List ?s ?lo empty_machine) = Returned (Some [Some ?b, Some ?a, Some ?b], None)"
    using v n d by (simp add: List_returns append_slice_def)
  from List_preserves_order [OF v n d r] v n r
  show ?thesis by (simp add: len_def)
qed

section \<open>The caller's options\<close>

text \<open>
  Claim C10. \<open>Create\<close> and \<open>Update\<close> receive their options by value: whatever a cell
  of the store holds before the call, the caller's options among them, it holds after the
  call. The overwrite of the ID field happens in the cell of the parameter, which the call
  allocates.
\<close>

theorem options_passed_by_value:
  "load a st = Some c \<Longrightarrow>
     load a (snd (Create s co st)) = Some c
     \<and> load a (snd (Update validStringID s variableID uo st)) = Some c"
  by (auto simp add: load_def Create_heap Update_heap nth_append split: if_split_asm)

theorem options_passed_by_value_witness:
  "load 0 (\<lparr>heap = [CreateOptionsCell
       (zero_VariableCreateOptions\<lparr>VariableCreateOptions.ID := ''mine'',
          VariableCreateOptions.Key := Some ''k'', VariableCreateOptions.Value := Some ''v'',
          VariableCreateOptions.Category := Some CategoryEnv,
          VariableCreateOptions.Workspace := Some ()\<rparr>)], calls = []\<rparr>
        :: (unit, string \<times> string) machine)
     = Some (CreateOptionsCell
       (zero_VariableCreateOptions\<lparr>VariableCreateOptions.ID := ''mine'',
          VariableCreateOptions.Key := Some ''k'', VariableCreateOptions.Value := Some ''v'',
          VariableCreateOptions.Category := Some CategoryEnv,
          VariableCreateOptions.Workspace := Some ()\<rparr>))
   \<and> load 0 (snd (Create (canned_Variables (ptr_Variable (Some zero_Variable), None))
       (zero_VariableCreateOptions\<lparr>VariableCreateOptions.ID := ''mine'',
          VariableCreateOptions.Key := Some ''k'', VariableCreateOptions.Value := Some ''v'',
          VariableCreateOptions.Category := Some CategoryEnv,
          VariableCreateOptions.Workspace := Some ()\<rparr>)
       \<lparr>heap = [CreateOptionsCell
         (zero_VariableCreateOptions\<lparr>VariableCreateOptions.ID := ''mine'',
            VariableCreateOptions.Key := Some ''k'', VariableCreateOptions.Value := Some ''v'',
            VariableCreateOptions.Category := Some CategoryEnv,
            VariableCreateOptions.Workspace := Some ()\<rparr>)], calls = []\<rparr>))
     = Some (CreateOptionsCell
       (zero_VariableCreateOptions\<lparr>VariableCreateOptions.ID := ''mine'',
          VariableCreateOptions.Key := Some ''k'', VariableCreateOptions.Value := Some ''v'',
          VariableCreateOptions.Category := Some CategoryEnv,
          VariableCreateOptions.Workspace := Some ()\<rparr>))
   \<and> load 1 (snd (Create (canned_Variables (ptr_Variable (Some zero_Variable), None))
       (zero_VariableCreateOptions\<lparr>VariableCreateOptions.ID := ''mine'',
          VariableCreateOptions.Key := Some ''k'', VariableCreateOptions.Value := Some ''v'',
          VariableCreateOptions.Category := Some CategoryEnv,
          VariableCreateOptions.Workspace := Some ()\<rparr>)
       \<lparr>heap = [CreateOptionsCell
         (zero_VariableCreateOptions\<lparr>VariableCreateOptions.ID := ''mine'',
            VariableCreateOptions.Key := Some ''k'', VariableCreateOptions.Value := Some ''v'',
            VariableCreateOptions.Category := Some CategoryEnv,
            VariableCreateOptions.Workspace := Some ()\<rparr>)], calls = []\<rparr>))
     = Some (CreateOptionsCell
       (zero_VariableCreateOptions\<lparr>VariableCreateOptions.ID := [],
          VariableCreateOptions.Key := Some ''k'', VariableCreateOptions.Value := Some ''v'',
          VariableCreateOptions.Category := Some CategoryEnv,
          VariableCreateOptions.Workspace := Some ()\<rparr>))"
proof -
  let ?co = "zero_VariableCreateOptions\<lparr>VariableCreateOptions.ID := ''mine'',
          VariableCreateOptions.Key := Some ''k'', VariableCreateOptions.Value := Some ''v'',
          VariableCreateOptions.Category := Some CategoryEnv,
          VariableCreateOptions.Workspace := Some ()\<rparr>"
  let ?st = "\<lparr>heap = [CreateOptionsCell ?co], calls = []\<rparr> :: (unit, string \<times> string) machine"
  let ?s = "canned_Variables (ptr_Variable (Some zero_Variable), None)"
  have l: "load 0 ?st = Some (CreateOptionsCell ?co)"
    by (simp add: load_def)
  have v: "VariableCreateOptions_valid ?co = None"
    by (simp add: VariableCreateOptions_valid_def validString_def zero_VariableCreateOptions_def)
  have fresh: "load 1 (snd (Create ?s ?co ?st))
      = Some (CreateOptionsCell (?co\<lparr>VariableCreateOptions.ID := []\<rparr>))"
    using v by (simp add: load_def Create_heap)
  have kept: "load 0 (snd (Create ?s ?co ?st)) = Some (CreateOptionsCell ?co)"
    using options_passed_by_value [OF l, of ?s ?co "\<lambda>v. True" "[]" zero_VariableUpdateOptions]
    by (rule conjunct1)
  show ?thesis
    using l kept fresh by (simp add: zero_VariableCreateOptions_def)
qed

end
